theory Spec2Isabelle
  imports
    Main
    "HOL-Library.Char_ord"
    "HOL-Library.List_Lexorder"
    "HOL-Library.Product_Lexorder"
    "HOL-Library.Multiset"
    "HOL-Library.Sublist"
begin

section \<open>Carnet d'adresses: the storage layer, the controller and the view's email checker\<close>

text \<open>
  The program is a Python address book over one SQLite table.  The Python code is embedded
  function by function, under the names of the source; the SQL statements it sends are
  embedded by the documented meaning of each statement on an explicit table state.

  Conventions of the embedding.
  \<^item> A Python \<open>str\<close> is a \<open>string\<close>; a \<open>char\<close> stands for the code point of the same
    number, so the embedding covers the strings whose code points are below 256.
  \<^item> A parameter with default \<open>None\<close> is a \<open>string option\<close>; an SQL \<open>NULL\<close> is \<open>None\<close>.
  \<^item> An exception is the left injection of a sum; every operation also returns the
    database it leaves behind, since a commit made before a \<open>raise\<close> stays.
  \<^item> The engine is taken to execute every statement (no I/O failure, no limit on the
    length of a statement or of a \<open>LIKE\<close> pattern, no NUL inside a text value); the one
    engine error that follows from the data alone, \<open>SQLITE_FULL\<close> on an exhausted
    \<open>AUTOINCREMENT\<close> key, is a branch of the model.
\<close>

subsection \<open>Python strings\<close>

text \<open>\<open>str.isspace\<close> on one code point below 256: the characters \<open>str.strip()\<close> removes.\<close>

definition est_espace :: "char \<Rightarrow> bool" where
  "est_espace c =
     (let n = (of_char c :: nat)
      in (9 \<le> n \<and> n \<le> 13) \<or> (28 \<le> n \<and> n \<le> 32) \<or> n = 133 \<or> n = 160)"

text \<open>\<open>s.strip()\<close>: leading, then trailing whitespace is dropped.\<close>

definition py_strip :: "string \<Rightarrow> string" where
  "py_strip s = rev (dropWhile est_espace (rev (dropWhile est_espace s)))"

text \<open>
  The expression \<open>x.strip() if x else None\<close> that \<open>ajouter_contact\<close> and
  \<open>modifier_contact\<close> apply to \<open>telephone\<close>, \<open>email\<close> and \<open>adresse\<close>: \<open>None\<close> and the
  empty string are falsy and give \<open>None\<close>; any other string is stripped (a string of
  blanks gives the empty string, not \<open>None\<close>).
\<close>

definition nettoyer_optionnel :: "string option \<Rightarrow> string option" where
  "nettoyer_optionnel x =
     (case x of None \<Rightarrow> None | Some s \<Rightarrow> if s = [] then None else Some (py_strip s))"

subsection \<open>The table \<open>contacts\<close>\<close>

text \<open>
  A row is the tuple the cursor returns: \<open>(id, nom, prenom, telephone, email, adresse)\<close>.
  \<open>nom\<close> and \<open>prenom\<close> are \<open>TEXT NOT NULL\<close>, the three others may be \<open>NULL\<close>.
\<close>

type_synonym ligne = "int \<times> string \<times> string \<times> string option \<times> string option \<times> string option"

fun col_id :: "ligne \<Rightarrow> int" where
  "col_id (i, n, p, t, e, a) = i"

fun col_nom :: "ligne \<Rightarrow> string" where
  "col_nom (i, n, p, t, e, a) = n"

fun col_prenom :: "ligne \<Rightarrow> string" where
  "col_prenom (i, n, p, t, e, a) = p"

fun col_telephone :: "ligne \<Rightarrow> string option" where
  "col_telephone (i, n, p, t, e, a) = t"

fun col_email :: "ligne \<Rightarrow> string option" where
  "col_email (i, n, p, t, e, a) = e"

fun col_adresse :: "ligne \<Rightarrow> string option" where
  "col_adresse (i, n, p, t, e, a) = a"

text \<open>
  The table holds its rows in rowid order, and, the key being \<open>AUTOINCREMENT\<close>, the engine
  keeps in \<open>sqlite_sequence\<close> the largest key it has ever given to the table (0 before the
  first insertion).  A database file either has the table or not yet (\<open>None\<close>).
\<close>

record table =
  lignes :: "ligne list"
  sequence :: nat

type_synonym base = "table option"

definition table_vide :: table where
  "table_vide = \<lparr>lignes = [], sequence = 0\<rparr>"

text \<open>What a statement reads from the file once the table is there.\<close>

definition contenu :: "base \<Rightarrow> table" where
  "contenu b = (case b of None \<Rightarrow> table_vide | Some t \<Rightarrow> t)"

text \<open>\<open>CREATE TABLE IF NOT EXISTS contacts (...)\<close>, committed.\<close>

definition initialiser_base :: "base \<Rightarrow> base" where
  "initialiser_base b = (case b of None \<Rightarrow> Some table_vide | Some t \<Rightarrow> Some t)"

datatype erreur = ValueError string | TypeError string | OperationalError string

subsection \<open>The SQL statements\<close>

text \<open>
  \<open>INSERT INTO contacts (nom, prenom, telephone, email, adresse) VALUES (?, ?, ?, ?, ?)\<close>
  on an \<open>INTEGER PRIMARY KEY AUTOINCREMENT\<close> table: the new key is one more than the
  largest key the table holds or has ever been given; when that is the largest 64-bit
  integer the insertion fails with \<open>SQLITE_FULL\<close>.  The result is \<open>cursor.lastrowid\<close>.
\<close>

definition plus_grand_id :: "table \<Rightarrow> int" where
  "plus_grand_id t = Max (set (int (sequence t) # map col_id (lignes t)))"

definition rowid_max :: int where
  "rowid_max = 9223372036854775807"

definition sql_insert ::
  "string \<times> string \<times> string option \<times> string option \<times> string option \<Rightarrow> table \<Rightarrow> erreur + (int \<times> table)" where
  "sql_insert valeurs t =
     (if rowid_max \<le> plus_grand_id t then Inl (OperationalError ''database or disk is full'')
      else
        let i = plus_grand_id t + 1
        in Inr (i, \<lparr>lignes = lignes t @ [(i, valeurs)], sequence = nat i\<rparr>))"

text \<open>
  \<open>UPDATE contacts SET nom = ?, prenom = ?, telephone = ?, email = ?, adresse = ? WHERE id = ?\<close>;
  the first component is \<open>cursor.rowcount\<close>.
\<close>

definition sql_update ::
  "string \<times> string \<times> string option \<times> string option \<times> string option \<Rightarrow> int \<Rightarrow> table \<Rightarrow> nat \<times> table" where
  "sql_update valeurs contact_id t =
     (length (filter (\<lambda>l. col_id l = contact_id) (lignes t)),
      t\<lparr>lignes := map (\<lambda>l. if col_id l = contact_id then (contact_id, valeurs) else l) (lignes t)\<rparr>)"

text \<open>\<open>DELETE FROM contacts WHERE id = ?\<close>; the first component is \<open>cursor.rowcount\<close>.\<close>

definition sql_delete :: "int \<Rightarrow> table \<Rightarrow> nat \<times> table" where
  "sql_delete contact_id t =
     (length (filter (\<lambda>l. col_id l = contact_id) (lignes t)),
      t\<lparr>lignes := filter (\<lambda>l. col_id l \<noteq> contact_id) (lignes t)\<rparr>)"

text \<open>
  \<open>ORDER BY nom, prenom\<close>: both columns have the default collation \<open>BINARY\<close>, which
  compares the encoded bytes, that is the code points, in lexicographic order; this is
  the order of \<open>string\<close>.  Rows with equal keys are kept in rowid order.
\<close>

definition cle_tri :: "ligne \<Rightarrow> string \<times> string" where
  "cle_tri l = (col_nom l, col_prenom l)"

definition sql_order_by_nom_prenom :: "ligne list \<Rightarrow> ligne list" where
  "sql_order_by_nom_prenom ls = sort_key cle_tri ls"

text \<open>\<open>LOWER(x)\<close>: the letters A to Z are folded, every other character is kept; \<open>NULL\<close> gives \<open>NULL\<close>.\<close>

definition minuscule :: "char \<Rightarrow> char" where
  "minuscule c =
     (if CHR ''A'' \<le> c \<and> c \<le> CHR ''Z'' then char_of ((of_char c :: nat) + 32) else c)"

definition sql_lower :: "string option \<Rightarrow> string option" where
  "sql_lower x = map_option (map minuscule) x"

text \<open>
  \<open>x LIKE pattern\<close>, without \<open>ESCAPE\<close>: in the pattern \<open>%\<close> stands for any sequence of
  characters, also the empty one, \<open>_\<close> for exactly one character, and any other character
  for itself up to the case of the letters A to Z.  The first argument of
  \<open>like_motif\<close> is the pattern.
\<close>

fun like_motif :: "string \<Rightarrow> string \<Rightarrow> bool" where
  "like_motif [] s = (s = [])"
| "like_motif (p # ps) s =
     (if p = CHR ''%'' then
        like_motif ps s \<or> (case s of [] \<Rightarrow> False | c # cs \<Rightarrow> like_motif (p # ps) cs)
      else
        (case s of
           [] \<Rightarrow> False
         | c # cs \<Rightarrow> (p = CHR ''_'' \<or> minuscule p = minuscule c) \<and> like_motif ps cs))"

text \<open>The operators on SQL values: a \<open>NULL\<close> operand of \<open>LIKE\<close> gives \<open>NULL\<close>; \<open>OR\<close> is three-valued.\<close>

definition sql_like :: "string option \<Rightarrow> string option \<Rightarrow> bool option" where
  "sql_like x motif =
     (case x of
        None \<Rightarrow> None
      | Some s \<Rightarrow> (case motif of None \<Rightarrow> None | Some m \<Rightarrow> Some (like_motif m s)))"

definition sql_or :: "bool option \<Rightarrow> bool option \<Rightarrow> bool option" where
  "sql_or a b =
     (if a = Some True \<or> b = Some True then Some True
      else if a = Some False \<and> b = Some False then Some False
      else None)"

text \<open>
  The \<open>WHERE\<close> clause of \<open>rechercher_contact\<close>,
  \<open>LOWER(nom) LIKE LOWER(?) OR LOWER(telephone) LIKE LOWER(?) OR LOWER(email) LIKE LOWER(?)\<close>,
  with the same pattern bound three times.  A row is selected when the clause is true.
\<close>

definition clause_where :: "string \<Rightarrow> ligne \<Rightarrow> bool option" where
  "clause_where pattern l =
     sql_or
       (sql_or (sql_like (sql_lower (Some (col_nom l))) (sql_lower (Some pattern)))
               (sql_like (sql_lower (col_telephone l)) (sql_lower (Some pattern))))
       (sql_like (sql_lower (col_email l)) (sql_lower (Some pattern)))"

definition sql_select_like :: "string \<Rightarrow> table \<Rightarrow> ligne list" where
  "sql_select_like pattern t =
     sql_order_by_nom_prenom (filter (\<lambda>l. clause_where pattern l = Some True) (lignes t))"

text \<open>\<open>SELECT ... FROM contacts WHERE id = ?\<close> followed by \<open>fetchone()\<close>.\<close>

definition sql_select_id :: "int \<Rightarrow> table \<Rightarrow> ligne option" where
  "sql_select_id contact_id t = find (\<lambda>l. col_id l = contact_id) (lignes t)"

subsection \<open>\<open>model1.py\<close>: class \<open>CarnetAdresses\<close>\<close>

definition ajouter_contact ::
  "string \<Rightarrow> string \<Rightarrow> string option \<Rightarrow> string option \<Rightarrow> string option \<Rightarrow> base
     \<Rightarrow> (erreur + int) \<times> base" where
  "ajouter_contact nom prenom telephone email adresse b =
     (if nom = [] \<or> py_strip nom = [] then (Inl (ValueError ''Le nom est obligatoire''), b)
      else if prenom = [] \<or> py_strip prenom = [] then
        (Inl (ValueError (''Le pr'' @ [CHR 0xE9] @ ''nom est obligatoire'')), b)
      else
        let b1 = initialiser_base b;
            valeurs = (py_strip nom, py_strip prenom, nettoyer_optionnel telephone,
                       nettoyer_optionnel email, nettoyer_optionnel adresse)
        in (case sql_insert valeurs (contenu b1) of
              Inl e \<Rightarrow> (Inl e, b1)
            | Inr (contact_id, t) \<Rightarrow> (Inr contact_id, Some t)))"

definition rechercher_contact :: "string \<Rightarrow> base \<Rightarrow> (erreur + ligne list) \<times> base" where
  "rechercher_contact critere b =
     (if critere = [] \<or> py_strip critere = [] then
        (Inl (ValueError (''Le crit'' @ [CHR 0xE8] @ ''re de recherche est obligatoire'')), b)
      else
        let b1 = initialiser_base b;
            pattern = ''%'' @ py_strip critere @ ''%''
        in (Inr (sql_select_like pattern (contenu b1)), b1))"

definition modifier_contact ::
  "int \<Rightarrow> string \<Rightarrow> string \<Rightarrow> string option \<Rightarrow> string option \<Rightarrow> string option \<Rightarrow> base
     \<Rightarrow> (erreur + bool) \<times> base" where
  "modifier_contact contact_id nom prenom telephone email adresse b =
     (if contact_id = 0 \<or> contact_id \<le> 0 then
        (Inl (ValueError ''L'identifiant du contact est invalide''), b)
      else if nom = [] \<or> py_strip nom = [] then (Inl (ValueError ''Le nom est obligatoire''), b)
      else if prenom = [] \<or> py_strip prenom = [] then
        (Inl (ValueError (''Le pr'' @ [CHR 0xE9] @ ''nom est obligatoire'')), b)
      else
        let b1 = initialiser_base b;
            valeurs = (py_strip nom, py_strip prenom, nettoyer_optionnel telephone,
                       nettoyer_optionnel email, nettoyer_optionnel adresse);
            (lignes_modifiees, t) = sql_update valeurs contact_id (contenu b1)
        in (Inr (lignes_modifiees > 0), Some t))"

definition supprimer_contact :: "int \<Rightarrow> base \<Rightarrow> (erreur + bool) \<times> base" where
  "supprimer_contact contact_id b =
     (if contact_id = 0 \<or> contact_id \<le> 0 then
        (Inl (ValueError ''L'identifiant du contact est invalide''), b)
      else
        let b1 = initialiser_base b;
            (lignes_supprimees, t) = sql_delete contact_id (contenu b1)
        in (Inr (lignes_supprimees > 0), Some t))"

definition afficher_tous :: "base \<Rightarrow> ligne list \<times> base" where
  "afficher_tous b =
     (let b1 = initialiser_base b
      in (sql_order_by_nom_prenom (lignes (contenu b1)), b1))"

definition obtenir_contact_par_id :: "int \<Rightarrow> base \<Rightarrow> (erreur + ligne option) \<times> base" where
  "obtenir_contact_par_id contact_id b =
     (if contact_id = 0 \<or> contact_id \<le> 0 then
        (Inl (ValueError ''L'identifiant du contact est invalide''), b)
      else
        let b1 = initialiser_base b
        in (Inr (sql_select_id contact_id (contenu b1)), b1))"

subsection \<open>Sessions of storage operations\<close>

text \<open>
  A storage session is a sequence of calls of the six methods, each on the database the
  previous one left.  \<open>executer\<close> gives the id a call of \<open>ajouter_contact\<close> returned, when
  it returned one, and the database after the call.
\<close>

datatype operation =
    Ajouter string string "string option" "string option" "string option"
  | Rechercher string
  | Modifier int string string "string option" "string option" "string option"
  | Supprimer int
  | AfficherTous
  | ObtenirParId int

fun executer :: "operation \<Rightarrow> base \<Rightarrow> int option \<times> base" where
  "executer (Ajouter nom prenom telephone email adresse) b =
     (case fst (ajouter_contact nom prenom telephone email adresse b) of
        Inl e \<Rightarrow> (None, snd (ajouter_contact nom prenom telephone email adresse b))
      | Inr i \<Rightarrow> (Some i, snd (ajouter_contact nom prenom telephone email adresse b)))"
| "executer (Rechercher critere) b = (None, snd (rechercher_contact critere b))"
| "executer (Modifier contact_id nom prenom telephone email adresse) b =
     (None, snd (modifier_contact contact_id nom prenom telephone email adresse b))"
| "executer (Supprimer contact_id) b = (None, snd (supprimer_contact contact_id b))"
| "executer AfficherTous b = (None, snd (afficher_tous b))"
| "executer (ObtenirParId contact_id) b = (None, snd (obtenir_contact_par_id contact_id b))"

definition etat_apres :: "operation list \<Rightarrow> base \<Rightarrow> base" where
  "etat_apres ops b = foldl (\<lambda>b1 op. snd (executer op b1)) b ops"

fun ids_crees :: "operation list \<Rightarrow> base \<Rightarrow> int list" where
  "ids_crees [] b = []"
| "ids_crees (op # ops) b =
     (case fst (executer op b) of None \<Rightarrow> [] | Some i \<Rightarrow> [i]) @ ids_crees ops (snd (executer op b))"

text \<open>
  The engine keeps \<open>sqlite_sequence\<close> at or above every key of the table: each insertion
  raises it to the key it gives, and nothing lowers it.  A table in this state is coherent.
\<close>

definition coherente :: "table \<Rightarrow> bool" where
  "coherente t = list_all (\<lambda>l. col_id l \<le> int (sequence t)) (lignes t)"

subsection \<open>The specification's reading of \<open>find\<close>\<close>

text \<open>
  These two definitions follow the words of the specification, not the code: a query is a
  case-insensitive substring of a field when, both folded to lower case, the query occurs
  in the field as a contiguous run of characters; a record matches a query when the query
  is such a substring of its \<open>nom\<close>, its \<open>telephone\<close> or its \<open>email\<close>.  An absent field
  has no substring.
\<close>

definition sous_chaine_sans_casse :: "string \<Rightarrow> string \<Rightarrow> bool" where
  "sous_chaine_sans_casse q s = sublist (map minuscule q) (map minuscule s)"

definition correspond :: "string \<Rightarrow> ligne \<Rightarrow> bool" where
  "correspond q l =
     (sous_chaine_sans_casse q (col_nom l)
      \<or> (case col_telephone l of None \<Rightarrow> False | Some t \<Rightarrow> sous_chaine_sans_casse q t)
      \<or> (case col_email l of None \<Rightarrow> False | Some e \<Rightarrow> sous_chaine_sans_casse q e))"

subsection \<open>The specification's reading of the listing order\<close>

text \<open>
  Ordered by \<open>(last_name, first_name)\<close> ascending, in the words of the specification: of
  two records of a listing, the earlier has the smaller \<open>nom\<close>, or the same \<open>nom\<close> and a
  \<open>prenom\<close> that is not greater.  Strings are compared code point by code point, so an
  upper-case letter is smaller than every lower-case one.
\<close>

definition avant :: "ligne \<Rightarrow> ligne \<Rightarrow> bool" where
  "avant l1 l2 =
     (col_nom l1 < col_nom l2 \<or> (col_nom l1 = col_nom l2 \<and> col_prenom l1 \<le> col_prenom l2))"

definition ordonnee :: "ligne list \<Rightarrow> bool" where
  "ordonnee ls = sorted_wrt avant ls"

subsection \<open>\<open>controleur.py\<close>: the email validator\<close>

text \<open>
  The regular expression of \<open>valider_email\<close> is a sequence of bracket expressions, each
  taken once or at least \<open>n\<close> times (\<open>+\<close> is \<open>{1,}\<close>), between \<open>^\<close> and \<open>$\<close>.  A bracket
  expression is a list of ranges and single characters.
\<close>

datatype classe = Intervalle char char | Caractere char

fun dans_classe :: "classe \<Rightarrow> char \<Rightarrow> bool" where
  "dans_classe (Intervalle a b) c = (a \<le> c \<and> c \<le> b)"
| "dans_classe (Caractere a) c = (c = a)"

definition dans_crochets :: "classe list \<Rightarrow> char \<Rightarrow> bool" where
  "dans_crochets ks c = list_ex (\<lambda>k. dans_classe k c) ks"

datatype element = Une_fois "classe list" | Au_moins nat "classe list"

text \<open>
  \<open>re.match(pattern, s)\<close> is truthy when some way of taking the elements in turn, from
  the start of \<open>s\<close>, ends where \<open>$\<close> holds.  Without \<open>re.MULTILINE\<close>, \<open>$\<close> holds at the end of
  the string and also just before a newline that is the last character of the string.
  \<open>re_match es s\<close> says that the elements \<open>es\<close>, then \<open>$\<close>, match the rest \<open>s\<close> of the string.
\<close>

fun re_match :: "element list \<Rightarrow> string \<Rightarrow> bool" where
  "re_match [] s = (s = [] \<or> s = [CHR 0x0A])"
| "re_match (Une_fois ks # es) s =
     (case s of [] \<Rightarrow> False | c # cs \<Rightarrow> dans_crochets ks c \<and> re_match es cs)"
| "re_match (Au_moins n ks # es) s =
     (case s of
        [] \<Rightarrow> n = 0 \<and> re_match es []
      | c # cs \<Rightarrow>
          (n = 0 \<and> re_match es (c # cs))
          \<or> (dans_crochets ks c \<and> re_match (Au_moins (n - 1) ks # es) cs))"

text \<open>The three bracket expressions \<open>[a-zA-Z0-9._%+-]\<close>, \<open>[a-zA-Z0-9.-]\<close> and \<open>[a-zA-Z]\<close>.\<close>

definition crochets_local :: "classe list" where
  "crochets_local =
     [Intervalle (CHR ''a'') (CHR ''z''), Intervalle (CHR ''A'') (CHR ''Z''),
      Intervalle (CHR ''0'') (CHR ''9''), Caractere (CHR ''.''), Caractere (CHR ''_''),
      Caractere (CHR ''%''), Caractere (CHR ''+''), Caractere (CHR ''-'')]"

definition crochets_domaine :: "classe list" where
  "crochets_domaine =
     [Intervalle (CHR ''a'') (CHR ''z''), Intervalle (CHR ''A'') (CHR ''Z''),
      Intervalle (CHR ''0'') (CHR ''9''), Caractere (CHR ''.''), Caractere (CHR ''-'')]"

definition crochets_alpha :: "classe list" where
  "crochets_alpha = [Intervalle (CHR ''a'') (CHR ''z''), Intervalle (CHR ''A'') (CHR ''Z'')]"

text \<open>\<open>pattern = r'^[a-zA-Z0-9._%+-]+@[a-zA-Z0-9.-]+\.[a-zA-Z]{2,}$'\<close>\<close>

definition pattern_email :: "element list" where
  "pattern_email =
     [Au_moins 1 crochets_local, Une_fois [Caractere (CHR ''@'')], Au_moins 1 crochets_domaine,
      Une_fois [Caractere (CHR ''.'')], Au_moins 2 crochets_alpha]"

definition valider_email :: "string \<Rightarrow> bool" where
  "valider_email email =
     (if email = [] then True
      else if re_match pattern_email email then True
      else False)"

text \<open>
  The form the specification gives in words, \<open>localpart@domain.tld\<close>: a local part of one
  or more characters of \<open>[A-Za-z0-9._%+-]\<close>, an \<open>@\<close>, a domain of one or more characters of
  \<open>[A-Za-z0-9.-]\<close>, a dot, and a final segment of two or more letters.  This definition
  follows the specification, not the code.
\<close>

definition email_conforme :: "string \<Rightarrow> bool" where
  "email_conforme e =
     (\<exists>partie_locale domaine tld.
        e = partie_locale @ ''@'' @ domaine @ ''.'' @ tld
        \<and> 1 \<le> length partie_locale \<and> list_all (dans_crochets crochets_local) partie_locale
        \<and> 1 \<le> length domaine \<and> list_all (dans_crochets crochets_domaine) domaine
        \<and> 2 \<le> length tld \<and> list_all (dans_crochets crochets_alpha) tld)"

subsection \<open>\<open>view.py\<close>: the real-time email checker\<close>

text \<open>
  \<open>_valider_email_temps_reel\<close> reads the entry, and sets the text of the error label and
  the colour of the entry.  The embedding takes the content of the entry and returns
  which of the seven settings the method ends with; \<open>FormatValide\<close> is the green one.
\<close>

datatype retour_email =
    ChampVide
  | ArobaseManquant
  | PartieLocaleVide
  | ExtensionManquante
  | ExtensionTropCourte
  | CaractereNonAutorise char
  | FormatValide

definition caracteres_interdits :: "char list" where
  "caracteres_interdits = [CHR '' '', CHR '','', CHR '';'', CHR '':'', CHR ''!'', CHR ''?'']"

text \<open>\<open>reste.split('.')[-1]\<close>: what follows the last dot, or all of \<open>reste\<close> when it has no dot.\<close>

definition dernier_segment :: "string \<Rightarrow> string" where
  "dernier_segment reste = rev (takeWhile (\<lambda>c. c \<noteq> CHR ''.'') (rev reste))"

definition valider_email_temps_reel :: "string \<Rightarrow> retour_email" where
  "valider_email_temps_reel saisie =
     (let email = py_strip saisie
      in if email = [] then ChampVide
         else if CHR ''@'' \<notin> set email then ArobaseManquant
         else
           let partie_locale = takeWhile (\<lambda>c. c \<noteq> CHR ''@'') email;
               reste = tl (dropWhile (\<lambda>c. c \<noteq> CHR ''@'') email)
           in if partie_locale = [] then PartieLocaleVide
              else if CHR ''.'' \<notin> set reste then ExtensionManquante
              else if length (dernier_segment reste) < 2 then ExtensionTropCourte
              else (case find (\<lambda>char. char \<in> set email) caracteres_interdits of
                      Some char \<Rightarrow> CaractereNonAutorise char
                    | None \<Rightarrow> FormatValide))"

subsection \<open>\<open>controleur.py\<close>: the delete workflow\<close>

text \<open>
  The controller calls the view and the model.  What it reads from the view is a
  parameter: \<open>selection\<close> is the result of \<open>get_selection()\<close> and \<open>confirmation titre message\<close>
  is the answer of the user to the dialog \<open>message_confirmation(titre, message)\<close>.  What it
  does to the view is returned as the list of its calls, in order.
\<close>

datatype action_vue =
    MessageErreur string string
  | MessageInfo string string
  | MessageConfirmation string string
  | ViderChamps
  | AfficherListe "ligne list"

text \<open>The text of the confirmation dialog, built from \<open>contact[1]\<close> and \<open>contact[2]\<close>.\<close>

definition message_suppression :: "ligne \<Rightarrow> string" where
  "message_suppression contact =
     ''Voulez-vous vraiment supprimer ce contact ?'' @ [CHR 0x0A, CHR 0x0A]
     @ ''Nom : '' @ col_nom contact @ [CHR 0x0A]
     @ ''Pr'' @ [CHR 0xE9] @ ''nom : '' @ col_prenom contact"

text \<open>
  \<open>Controller.supprimer_contact\<close>.  \<open>not contact_id\<close> holds of \<open>None\<close> and of 0 and gives the
  error message of the selection.  An exception of the model goes through the method;
  when the selected id has no row, \<open>contact\<close> is \<open>None\<close> and \<open>contact[1]\<close> raises \<open>TypeError\<close>
  before any dialog.  The last call, \<open>self.afficher_tous()\<close>, lists the table in the view.
\<close>

definition message_selection :: string where
  "message_selection = ''S'' @ [CHR 0xE9] @ ''lectionnez un contact '' @ [CHR 0xE0] @ '' supprimer''"

definition Controller_supprimer_contact ::
  "int option \<Rightarrow> (string \<Rightarrow> string \<Rightarrow> bool) \<Rightarrow> base \<Rightarrow> erreur option \<times> action_vue list \<times> base" where
  "Controller_supprimer_contact selection confirmation b =
     (case selection of
        None \<Rightarrow> (None, [MessageErreur ''Erreur'' message_selection], b)
      | Some contact_id \<Rightarrow>
          if contact_id = 0 then (None, [MessageErreur ''Erreur'' message_selection], b)
          else
            (case obtenir_contact_par_id contact_id b of
               (Inl e, b1) \<Rightarrow> (Some e, [], b1)
             | (Inr None, b1) \<Rightarrow>
                 (Some (TypeError '''NoneType' object is not subscriptable''), [], b1)
             | (Inr (Some contact), b1) \<Rightarrow>
                 if \<not> confirmation ''Confirmation'' (message_suppression contact) then
                   (None, [MessageConfirmation ''Confirmation'' (message_suppression contact)], b1)
                 else
                   (case supprimer_contact contact_id b1 of
                      (Inl e, b2) \<Rightarrow>
                        (Some e,
                         [MessageConfirmation ''Confirmation'' (message_suppression contact)], b2)
                    | (Inr supprime, b2) \<Rightarrow>
                        (None,
                         [MessageConfirmation ''Confirmation'' (message_suppression contact),
                          MessageInfo (''Succ'' @ [CHR 0xE8] @ ''s'')
                            (''Contact supprim'' @ [CHR 0xE9] @ '' avec succ'' @ [CHR 0xE8] @ ''s''),
                          ViderChamps,
                          AfficherListe (fst (afficher_tous b2))],
                         snd (afficher_tous b2)))))"

section \<open>The storage operations: create, read, update, delete\<close>

subsection \<open>Auxiliary facts\<close>

lemma initialiser_base_Some: "initialiser_base b = Some (contenu b)"
  by (simp add: initialiser_base_def contenu_def split: option.splits)

lemma contenu_Some: "contenu (Some t) = t"
  by (simp add: contenu_def)

lemma py_strip_Nil: "py_strip [] = []"
  by (simp add: py_strip_def)

lemma col_id_paire: "col_id (i, v) = i"
  by (cases v) auto

lemma id_le_plus_grand_id: "l \<in> set (lignes t) \<Longrightarrow> col_id l \<le> plus_grand_id t"
  by (simp add: plus_grand_id_def)

lemma sequence_le_plus_grand_id: "int (sequence t) \<le> plus_grand_id t"
  by (simp add: plus_grand_id_def)

lemma plus_grand_id_nonneg: "0 \<le> plus_grand_id t"
  using sequence_le_plus_grand_id [of t] by linarith

lemma find_absent:
  "\<forall>l\<in>set ls. col_id l \<noteq> i \<Longrightarrow> find (\<lambda>l. col_id l = i) (ls @ [(i, v)]) = Some (i, v)"
  by (induction ls) (auto simp: col_id_paire)





subsection \<open>C1: create followed by get-by-id\<close>

text \<open>
  C1, as stated: the record read back after \<open>ajouter_contact\<close> has the inserted fields with
  leading and trailing whitespace removed.  This fails for an optional field given as the
  empty string, which is what the controller passes for a field left blank: it is stored
  as \<open>NULL\<close> and read back as \<open>None\<close>, not as the (trimmed) empty string.
\<close>

theorem ajouter_puis_obtenir_contre_exemple:
  "fst (ajouter_contact ''Dupont'' ''Jean'' (Some '''') None None None) = Inr 1
   \<and> fst (obtenir_contact_par_id 1
            (snd (ajouter_contact ''Dupont'' ''Jean'' (Some '''') None None None))) =
       Inr (Some (1, ''Dupont'', ''Jean'', None, None, None))
   \<and> (1, ''Dupont'', ''Jean'', None, None, None) \<noteq>
       (1 :: int, py_strip ''Dupont'', py_strip ''Jean'', map_option py_strip (Some ''''),
        map_option py_strip None, map_option py_strip None)"
  by code_simp

text \<open>
  C1, amended: for \<open>nom\<close> and \<open>prenom\<close> that are not blank, and a key that is not
  exhausted, \<open>ajouter_contact\<close> returns a positive id, and \<open>obtenir_contact_par_id\<close> on that id
  returns the record made of the id, \<open>nom\<close> and \<open>prenom\<close> stripped, and each optional field
  absent when it was given absent or empty and stripped otherwise.
\<close>

theorem ajouter_puis_obtenir:
  assumes "py_strip nom \<noteq> []" and "py_strip prenom \<noteq> []"
    and "plus_grand_id (contenu b) < rowid_max"
  shows "\<exists>i b'. ajouter_contact nom prenom telephone email adresse b = (Inr i, b') \<and> 0 < i \<and>
           obtenir_contact_par_id i b' =
             (Inr (Some (i, py_strip nom, py_strip prenom, nettoyer_optionnel telephone,
                         nettoyer_optionnel email, nettoyer_optionnel adresse)), b')"
proof -
  let ?v = "(py_strip nom, py_strip prenom, nettoyer_optionnel telephone,
             nettoyer_optionnel email, nettoyer_optionnel adresse)"
  let ?t = "contenu b"
  let ?i = "plus_grand_id ?t + 1"
  let ?t' = "\<lparr>lignes = lignes ?t @ [(?i, ?v)], sequence = nat ?i\<rparr>"
  from assms have nn: "nom \<noteq> []" "prenom \<noteq> []"
    using py_strip_Nil by auto
  have ins: "sql_insert ?v ?t = Inr (?i, ?t')"
    using assms(3) by (simp add: sql_insert_def Let_def)
  have aj: "ajouter_contact nom prenom telephone email adresse b = (Inr ?i, Some ?t')"
    using assms(1,2) nn ins
    by (simp add: ajouter_contact_def initialiser_base_Some contenu_Some Let_def)
  have pos: "0 < ?i"
    using plus_grand_id_nonneg [of ?t] by linarith
  have "\<forall>l\<in>set (lignes ?t). col_id l \<noteq> ?i"
    using id_le_plus_grand_id [of _ ?t] by fastforce
  then have "sql_select_id ?i ?t' = Some (?i, ?v)"
    by (simp add: sql_select_id_def find_absent)
  then have "obtenir_contact_par_id ?i (Some ?t') = (Inr (Some (?i, ?v)), Some ?t')"
    using pos by (simp add: obtenir_contact_par_id_def initialiser_base_Some contenu_Some Let_def)
  with aj pos show ?thesis by blast
qed

theorem ajouter_puis_obtenir_temoin:
  "py_strip ''  Dupont '' \<noteq> [] \<and> py_strip ''Jean'' \<noteq> []
   \<and> plus_grand_id (contenu None) < rowid_max
   \<and> (\<exists>i b'. ajouter_contact ''  Dupont '' ''Jean'' (Some '' 0102 '') (Some '''') None None =
                (Inr i, b') \<and> 0 < i \<and>
              obtenir_contact_par_id i b' =
                (Inr (Some (i, ''Dupont'', ''Jean'', Some ''0102'', None, None)), b'))"
proof -
  have h1: "py_strip ''  Dupont '' \<noteq> []" by code_simp
  have h2: "py_strip ''Jean'' \<noteq> []" by code_simp
  have h3: "plus_grand_id (contenu None) < rowid_max" by code_simp
  have e1: "py_strip ''  Dupont '' = ''Dupont''" by code_simp
  have e2: "py_strip ''Jean'' = ''Jean''" by code_simp
  have e3: "nettoyer_optionnel (Some '' 0102 '') = Some ''0102''" by code_simp
  have e4: "nettoyer_optionnel (Some '''') = None" by code_simp
  have e5: "nettoyer_optionnel None = None" by code_simp
  show ?thesis
    using h1 h2 h3
      ajouter_puis_obtenir [OF h1 h2 h3, of "Some '' 0102 ''" "Some ''''" None]
    unfolding e1 e2 e3 e4 e5 by blast
qed

subsection \<open>C2: update\<close>




subsection \<open>C3: delete\<close>



section \<open>Sessions: keys and listing\<close>

subsection \<open>Auxiliary facts\<close>

lemma contenu_initialiser_base: "contenu (initialiser_base b) = contenu b"
  by (simp add: initialiser_base_Some contenu_Some)

lemma ajouter_contact_issue:
  "(\<exists>e. fst (ajouter_contact nom prenom telephone email adresse b) = Inl e \<and>
         contenu (snd (ajouter_contact nom prenom telephone email adresse b)) = contenu b)
   \<or> (\<exists>v. ajouter_contact nom prenom telephone email adresse b =
            (Inr (plus_grand_id (contenu b) + 1),
             Some \<lparr>lignes = lignes (contenu b) @ [(plus_grand_id (contenu b) + 1, v)],
                    sequence = nat (plus_grand_id (contenu b) + 1)\<rparr>))"
  by (simp add: ajouter_contact_def sql_insert_def Let_def initialiser_base_Some contenu_Some)

lemma ajouter_contact_reussi:
  assumes "ajouter_contact nom prenom telephone email adresse b = (Inr i, b')"
  shows "i = plus_grand_id (contenu b) + 1"
    and "\<exists>v. contenu b' = \<lparr>lignes = lignes (contenu b) @ [(i, v)], sequence = nat i\<rparr>"
  using assms ajouter_contact_issue [of nom prenom telephone email adresse b]
  by (auto simp: contenu_Some)

lemma contenu_rechercher: "contenu (snd (rechercher_contact c b)) = contenu b"
  by (simp add: rechercher_contact_def Let_def contenu_initialiser_base)

lemma contenu_afficher: "contenu (snd (afficher_tous b)) = contenu b"
  by (simp add: afficher_tous_def Let_def contenu_initialiser_base)

lemma contenu_obtenir: "contenu (snd (obtenir_contact_par_id i b)) = contenu b"
  by (simp add: obtenir_contact_par_id_def Let_def contenu_initialiser_base)

lemma ids_apres_update:
  "col_id ` set (map (\<lambda>l. if col_id l = i then (i, v) else l) ls) = col_id ` set ls"
  by (induction ls) (auto simp: col_id_paire)

lemma modifier_contact_cles:
  "sequence (contenu (snd (modifier_contact i n p t e a b))) = sequence (contenu b)
   \<and> col_id ` set (lignes (contenu (snd (modifier_contact i n p t e a b)))) =
       col_id ` set (lignes (contenu b))"
  by (simp add: modifier_contact_def sql_update_def Let_def initialiser_base_Some contenu_Some
      ids_apres_update del: set_map)

lemma supprimer_contact_cles:
  "sequence (contenu (snd (supprimer_contact i b))) = sequence (contenu b)
   \<and> set (lignes (contenu (snd (supprimer_contact i b)))) \<subseteq> set (lignes (contenu b))"
  by (simp add: supprimer_contact_def sql_delete_def Let_def initialiser_base_Some contenu_Some)

lemma coherente_iff: "coherente t = (\<forall>l\<in>set (lignes t). col_id l \<le> int (sequence t))"
  by (simp add: coherente_def list_all_iff)

lemma coherente_cles: "coherente t = (\<forall>j\<in>col_id ` set (lignes t). j \<le> int (sequence t))"
  by (auto simp: coherente_iff)

lemma plus_grand_id_coherente: "coherente t \<Longrightarrow> plus_grand_id t = int (sequence t)"
proof -
  assume c: "coherente t"
  have "plus_grand_id t \<le> int (sequence t)"
    unfolding plus_grand_id_def using c by (auto simp: coherente_iff)
  with sequence_le_plus_grand_id [of t] show ?thesis by linarith
qed

lemma executer_coherente:
  assumes "coherente (contenu b)"
  shows "coherente (contenu (snd (executer op b)))"
proof (cases op)
  case (Ajouter n p t e a)
  from ajouter_contact_issue [of n p t e a b] show ?thesis
  proof
    assume "\<exists>err. fst (ajouter_contact n p t e a b) = Inl err \<and>
              contenu (snd (ajouter_contact n p t e a b)) = contenu b"
    then show ?thesis using Ajouter assms by auto
  next
    assume "\<exists>v. ajouter_contact n p t e a b =
              (Inr (plus_grand_id (contenu b) + 1),
               Some \<lparr>lignes = lignes (contenu b) @ [(plus_grand_id (contenu b) + 1, v)],
                      sequence = nat (plus_grand_id (contenu b) + 1)\<rparr>)"
    then obtain v where v: "ajouter_contact n p t e a b =
              (Inr (plus_grand_id (contenu b) + 1),
               Some \<lparr>lignes = lignes (contenu b) @ [(plus_grand_id (contenu b) + 1, v)],
                      sequence = nat (plus_grand_id (contenu b) + 1)\<rparr>)" ..
    have "\<forall>l\<in>set (lignes (contenu b)). col_id l \<le> plus_grand_id (contenu b) + 1"
      using id_le_plus_grand_id [of _ "contenu b"] by fastforce
    then show ?thesis
      using Ajouter v plus_grand_id_nonneg [of "contenu b"]
      by (simp add: coherente_iff contenu_Some col_id_paire)
  qed
next
  case (Rechercher c)
  then show ?thesis using assms by (simp add: contenu_rechercher)
next
  case (Modifier i n p t e a)
  from modifier_contact_cles [of i n p t e a b] show ?thesis
    using Modifier assms by (simp add: coherente_cles)
next
  case (Supprimer i)
  from supprimer_contact_cles [of i b] show ?thesis
    using Supprimer assms by (auto simp: coherente_iff)
next
  case AfficherTous
  then show ?thesis using assms by (simp add: contenu_afficher)
next
  case (ObtenirParId i)
  then show ?thesis using assms by (simp add: contenu_obtenir)
qed

lemma executer_sequence:
  "sequence (contenu b) \<le> sequence (contenu (snd (executer op b)))"
proof (cases op)
  case (Ajouter n p t e a)
  from ajouter_contact_issue [of n p t e a b] show ?thesis
    using Ajouter sequence_le_plus_grand_id [of "contenu b"]
    by (auto simp: contenu_Some)
next
  case (Modifier i n p t e a)
  from modifier_contact_cles [of i n p t e a b] show ?thesis
    using Modifier by simp
next
  case (Supprimer i)
  from supprimer_contact_cles [of i b] show ?thesis
    using Supprimer by simp
qed (simp_all add: contenu_rechercher contenu_afficher contenu_obtenir)

lemma executer_id:
  assumes "fst (executer op b) = Some i"
  shows "i = int (sequence (contenu (snd (executer op b))))"
proof (cases op)
  case (Ajouter n p t e a)
  from ajouter_contact_issue [of n p t e a b] show ?thesis
    using Ajouter assms plus_grand_id_nonneg [of "contenu b"]
    by (auto simp: contenu_Some)
qed (use assms in simp_all)

lemma etat_apres_Nil: "etat_apres [] b = b"
  by (simp add: etat_apres_def)

lemma etat_apres_Cons: "etat_apres (op # ops) b = etat_apres ops (snd (executer op b))"
  by (simp add: etat_apres_def)

lemma etat_apres_append: "etat_apres (xs @ ys) b = etat_apres ys (etat_apres xs b)"
  by (simp add: etat_apres_def)

lemma etat_apres_coherente: "coherente (contenu b) \<Longrightarrow> coherente (contenu (etat_apres ops b))"
  by (induction ops arbitrary: b) (simp_all add: etat_apres_Nil etat_apres_Cons executer_coherente)

lemma etat_apres_sequence: "sequence (contenu b) \<le> sequence (contenu (etat_apres ops b))"
proof (induction ops arbitrary: b)
  case Nil
  show ?case by (simp add: etat_apres_Nil)
next
  case (Cons op ops)
  from executer_sequence [of b op] Cons [of "snd (executer op b)"] show ?case
    by (simp add: etat_apres_Cons)
qed

lemma etat_apres_take_sequence:
  "sequence (contenu (etat_apres (take k ops) b)) \<le> sequence (contenu (etat_apres ops b))"
proof -
  have "etat_apres ops b = etat_apres (drop k ops) (etat_apres (take k ops) b)"
    using etat_apres_append [of "take k ops" "drop k ops" b] by simp
  then show ?thesis
    using etat_apres_sequence [of "etat_apres (take k ops) b" "drop k ops"] by simp
qed

lemma ids_crees_sequence:
  "j \<in> set (ids_crees ops b) \<Longrightarrow> j \<le> int (sequence (contenu (etat_apres ops b)))"
proof (induction ops arbitrary: b)
  case Nil
  then show ?case by simp
next
  case (Cons op ops)
  let ?b1 = "snd (executer op b)"
  from Cons.prems have "fst (executer op b) = Some j \<or> j \<in> set (ids_crees ops ?b1)"
    by (auto split: option.splits)
  then show ?case
  proof
    assume "fst (executer op b) = Some j"
    then have "j = int (sequence (contenu ?b1))" by (rule executer_id)
    then show ?case
      using etat_apres_sequence [of ?b1 ops] by (simp add: etat_apres_Cons)
  next
    assume "j \<in> set (ids_crees ops ?b1)"
    then show ?case using Cons.IH by (simp add: etat_apres_Cons)
  qed
qed

subsection \<open>C5: the ids given by create\<close>

text \<open>
  C5: in a session that starts on a coherent database (a new file is one) and runs any
  operations \<open>ops\<close>, a call of \<open>ajouter_contact\<close> that succeeds returns an id that is
  positive, greater than every id the earlier creations of the session returned, and
  greater than the key of every row the table held at any earlier moment of the session
  (\<open>take k ops\<close> runs the session up to its \<open>k\<close>-th call), so also than the keys of rows
  deleted since: no id is given twice.
\<close>

theorem ajouter_contact_id_nouveau:
  assumes "coherente (contenu b)"
    and "ajouter_contact nom prenom telephone email adresse (etat_apres ops b) = (Inr i, b')"
  shows "0 < i
       \<and> (\<forall>j\<in>set (ids_crees ops b). j < i)
       \<and> (\<forall>k\<le>length ops. \<forall>l\<in>set (lignes (contenu (etat_apres (take k ops) b))). col_id l < i)"
proof -
  let ?s = "etat_apres ops b"
  have i: "i = plus_grand_id (contenu ?s) + 1"
    using assms(2) by (rule ajouter_contact_reussi)
  have lt: "int (sequence (contenu ?s)) < i"
    using i sequence_le_plus_grand_id [of "contenu ?s"] by linarith
  have "0 < i" using lt by linarith
  moreover have "\<forall>j\<in>set (ids_crees ops b). j < i"
    using ids_crees_sequence [of _ ops b] lt by fastforce
  moreover have "\<forall>k\<le>length ops. \<forall>l\<in>set (lignes (contenu (etat_apres (take k ops) b))). col_id l < i"
  proof (intro allI impI ballI)
    fix k l
    assume l: "l \<in> set (lignes (contenu (etat_apres (take k ops) b)))"
    have "coherente (contenu (etat_apres (take k ops) b))"
      using assms(1) by (rule etat_apres_coherente)
    with l have "col_id l \<le> int (sequence (contenu (etat_apres (take k ops) b)))"
      by (simp add: coherente_iff)
    also have "\<dots> \<le> int (sequence (contenu ?s))"
      using etat_apres_take_sequence [of k ops b] by simp
    finally show "col_id l < i" using lt by linarith
  qed
  ultimately show ?thesis by blast
qed

theorem ajouter_contact_id_nouveau_temoin:
  "coherente (contenu None)
   \<and> ids_crees [Ajouter ''Dupont'' ''Jean'' None None None,
                 Ajouter ''Martin'' ''Zoe'' None None None, Supprimer 2] None = [1, 2]
   \<and> ajouter_contact ''Petit'' ''Luc'' None None None
         (etat_apres [Ajouter ''Dupont'' ''Jean'' None None None,
                      Ajouter ''Martin'' ''Zoe'' None None None, Supprimer 2] None) =
       (Inr 3, Some \<lparr>lignes = [(1, ''Dupont'', ''Jean'', None, None, None),
                                 (3, ''Petit'', ''Luc'', None, None, None)], sequence = 3\<rparr>)
   \<and> (0 :: int) < 3
   \<and> list_all (\<lambda>j. j < 3)
         (ids_crees [Ajouter ''Dupont'' ''Jean'' None None None,
                     Ajouter ''Martin'' ''Zoe'' None None None, Supprimer 2] None)"
proof -
  let ?ops = "[Ajouter ''Dupont'' ''Jean'' None None None,
               Ajouter ''Martin'' ''Zoe'' None None None, Supprimer 2]"
  have h1: "coherente (contenu None)" by code_simp
  have h2: "ajouter_contact ''Petit'' ''Luc'' None None None (etat_apres ?ops None) =
              (Inr 3, Some \<lparr>lignes = [(1, ''Dupont'', ''Jean'', None, None, None),
                                        (3, ''Petit'', ''Luc'', None, None, None)], sequence = 3\<rparr>)"
    by code_simp
  have h3: "ids_crees ?ops None = [1, 2]" by code_simp
  from ajouter_contact_id_nouveau [OF h1 h2]
  have "(0 :: int) < 3" and "\<forall>j\<in>set (ids_crees ?ops None). j < 3" by blast+
  then show ?thesis using h1 h2 h3 by (simp add: list_all_iff)
qed

lemma avant_cle_tri: "avant l1 l2 = (cle_tri l1 \<le> cle_tri l2)"
  by (auto simp: avant_def cle_tri_def)

lemma ordonnee_iff: "ordonnee ls = sorted (map cle_tri ls)"
  by (simp add: ordonnee_def sorted_map avant_cle_tri [abs_def])

lemma ordonnee_order_by: "ordonnee (sql_order_by_nom_prenom ls)"
  by (simp add: ordonnee_iff sql_order_by_nom_prenom_def)

subsection \<open>C6: the listing is ordered\<close>

text \<open>
  C6: after any sequence of operations, from any database, \<open>afficher_tous\<close> returns all
  the rows of the table, each as often as the table holds it, in ascending order of
  \<open>(nom, prenom)\<close>; the order on the keys is the lexicographic order of the code points,
  in which an upper-case letter comes before every lower-case one.
\<close>

theorem afficher_tous_trie:
  "ordonnee (fst (afficher_tous (etat_apres ops b)))
   \<and> mset (fst (afficher_tous (etat_apres ops b))) = mset (lignes (contenu (etat_apres ops b)))"
proof
  show "ordonnee (fst (afficher_tous (etat_apres ops b)))"
    by (simp add: afficher_tous_def Let_def ordonnee_order_by)
  show "mset (fst (afficher_tous (etat_apres ops b))) = mset (lignes (contenu (etat_apres ops b)))"
    by (simp add: afficher_tous_def Let_def sql_order_by_nom_prenom_def contenu_initialiser_base)
qed

theorem afficher_tous_trie_temoin:
  "fst (afficher_tous
          (etat_apres [Ajouter ''martin'' ''Zoe'' None None None,
                       Ajouter ''Dupont'' ''Jean'' None None None,
                       Ajouter ''Martin'' ''Luc'' None None None,
                       Ajouter ''Dupont'' ''Anne'' None None None,
                       Modifier 3 ''Martin'' ''Lucie'' None None None,
                       Supprimer 2] None)) =
     [(4, ''Dupont'', ''Anne'', None, None, None), (3, ''Martin'', ''Lucie'', None, None, None),
      (1, ''martin'', ''Zoe'', None, None, None)]
   \<and> ordonnee
        [(4, ''Dupont'', ''Anne'', None, None, None), (3, ''Martin'', ''Lucie'', None, None, None),
         (1, ''martin'', ''Zoe'', None, None, None)]"
proof -
  let ?ops = "[Ajouter ''martin'' ''Zoe'' None None None,
               Ajouter ''Dupont'' ''Jean'' None None None,
               Ajouter ''Martin'' ''Luc'' None None None,
               Ajouter ''Dupont'' ''Anne'' None None None,
               Modifier 3 ''Martin'' ''Lucie'' None None None,
               Supprimer 2]"
  have e: "fst (afficher_tous (etat_apres ?ops None)) =
     [(4, ''Dupont'', ''Anne'', None, None, None), (3, ''Martin'', ''Lucie'', None, None, None),
      (1, ''martin'', ''Zoe'', None, None, None)]"
    by code_simp
  show ?thesis
    using afficher_tous_trie [of ?ops None] unfolding e by simp
qed

section \<open>Search\<close>

subsection \<open>The meaning of the \<open>LIKE\<close> patterns the search builds\<close>

lemma of_char_minuscule:
  "of_char (minuscule c) = (if 65 \<le> (of_char c :: nat) \<and> (of_char c :: nat) \<le> 90 then of_char c + 32 else (of_char c :: nat))"
  by (simp add: minuscule_def less_eq_char_def)



lemma minuscule_idem: "minuscule (minuscule c) = minuscule c"
proof -
  have "(of_char (minuscule (minuscule c)) :: nat) = of_char (minuscule c)"
    by (simp add: of_char_minuscule)
  then show ?thesis by (simp only: of_char_eq_iff)
qed


lemma map_minuscule_idem: "map minuscule (map minuscule s) = map minuscule s"
  by (simp add: minuscule_idem)






lemma like_tout: "like_motif ''%'' s"
  by (induction s) simp_all



lemma sql_or_vrai: "(sql_or a b = Some True) = (a = Some True \<or> b = Some True)"
  by (simp add: sql_or_def)


lemma like_pourcent_debut: "like_motif ps s \<Longrightarrow> like_motif (CHR ''%'' # ps) s"
  by simp

lemma like_trois_pourcents: "like_motif ''%%%'' s"
  by (intro like_pourcent_debut like_tout)

lemma clause_where_pourcent: "clause_where ''%%%'' l = Some True"
proof -
  have m: "map minuscule ''%%%'' = ''%%%''" by code_simp
  show ?thesis
    by (simp only: clause_where_def sql_lower_def sql_like_def option.map option.case m
        like_trois_pourcents sql_or_vrai) simp
qed

subsection \<open>C4: find\<close>




subsection \<open>C10: \<open>%\<close> and \<open>_\<close> in a query are wildcards\<close>

text \<open>
  C10: the query goes unescaped into the pattern \<open>%query%\<close>, so its \<open>%\<close> and \<open>_\<close> are
  read as wildcards.  On every database the query \<open>%\<close> returns all the records, as
  \<open>afficher_tous\<close> does; on the table below it returns both records although \<open>%\<close> is a
  substring of no field of either, and the query \<open>d_p\<close> returns the record of Dupont
  although \<open>d_p\<close> is a substring of none of its fields.
\<close>

theorem rechercher_contact_jokers:
  "fst (rechercher_contact ''%'' b) = Inr (fst (afficher_tous b))
   \<and> fst (rechercher_contact ''%''
            (Some \<lparr>lignes = [(1, ''Martin'', ''Zoe'', None, Some ''zoe@ex.fr'', None),
                              (2, ''Dupont'', ''Jean'', Some ''0102'', None, None)],
                   sequence = 2\<rparr>)) =
       Inr [(2, ''Dupont'', ''Jean'', Some ''0102'', None, None),
            (1, ''Martin'', ''Zoe'', None, Some ''zoe@ex.fr'', None)]
   \<and> \<not> correspond ''%'' (1, ''Martin'', ''Zoe'', None, Some ''zoe@ex.fr'', None)
   \<and> \<not> correspond ''%'' (2, ''Dupont'', ''Jean'', Some ''0102'', None, None)
   \<and> fst (rechercher_contact ''d_p''
            (Some \<lparr>lignes = [(1, ''Martin'', ''Zoe'', None, Some ''zoe@ex.fr'', None),
                              (2, ''Dupont'', ''Jean'', Some ''0102'', None, None)],
                   sequence = 2\<rparr>)) =
       Inr [(2, ''Dupont'', ''Jean'', Some ''0102'', None, None)]
   \<and> \<not> correspond ''d_p'' (2, ''Dupont'', ''Jean'', Some ''0102'', None, None)"
proof -
  have p: "py_strip ''%'' = ''%''" by code_simp
  have "fst (rechercher_contact ''%'' b) = Inr (fst (afficher_tous b))"
    by (simp add: rechercher_contact_def afficher_tous_def Let_def p sql_select_like_def
        clause_where_pourcent)
  moreover have "fst (rechercher_contact ''%''
            (Some \<lparr>lignes = [(1, ''Martin'', ''Zoe'', None, Some ''zoe@ex.fr'', None),
                              (2, ''Dupont'', ''Jean'', Some ''0102'', None, None)],
                   sequence = 2\<rparr>)) =
       Inr [(2, ''Dupont'', ''Jean'', Some ''0102'', None, None),
            (1, ''Martin'', ''Zoe'', None, Some ''zoe@ex.fr'', None)]"
    by code_simp
  moreover have "\<not> correspond ''%'' (1, ''Martin'', ''Zoe'', None, Some ''zoe@ex.fr'', None)"
    by code_simp
  moreover have "\<not> correspond ''%'' (2, ''Dupont'', ''Jean'', Some ''0102'', None, None)"
    by code_simp
  moreover have "fst (rechercher_contact ''d_p''
            (Some \<lparr>lignes = [(1, ''Martin'', ''Zoe'', None, Some ''zoe@ex.fr'', None),
                              (2, ''Dupont'', ''Jean'', Some ''0102'', None, None)],
                   sequence = 2\<rparr>)) =
       Inr [(2, ''Dupont'', ''Jean'', Some ''0102'', None, None)]"
    by code_simp
  moreover have "\<not> correspond ''d_p'' (2, ''Dupont'', ''Jean'', Some ''0102'', None, None)"
    by code_simp
  ultimately show ?thesis by blast
qed

theorem rechercher_contact_jokers_temoin:
  "fst (rechercher_contact ''%''
          (Some \<lparr>lignes = [(1, ''Martin'', ''Zoe'', None, None, None),
                            (2, ''Dupont'', ''Jean'', None, None, None)], sequence = 2\<rparr>)) =
     Inr (fst (afficher_tous
          (Some \<lparr>lignes = [(1, ''Martin'', ''Zoe'', None, None, None),
                            (2, ''Dupont'', ''Jean'', None, None, None)], sequence = 2\<rparr>)))"
  using rechercher_contact_jokers
    [of "Some \<lparr>lignes = [(1, ''Martin'', ''Zoe'', None, None, None),
                            (2, ''Dupont'', ''Jean'', None, None, None)], sequence = 2\<rparr>"]
  by blast

section \<open>Email validation\<close>

subsection \<open>What the regular expression accepts\<close>

lemma valider_email_exemples: "valider_email '''' \<and> valider_email ''jean.dupont@example.com'' \<and> \<not> valider_email ''nodomain''
  \<and> \<not> valider_email ''a@b'' \<and> \<not> valider_email ''a@b.c''"
  by code_simp

lemma re_match_Une_fois:
  "re_match (Une_fois ks # es) s = (\<exists>c v. s = c # v \<and> dans_crochets ks c \<and> re_match es v)"
  by (cases s) auto

lemma re_match_Au_moins:
  "re_match (Au_moins n ks # es) s =
     (\<exists>u v. s = u @ v \<and> n \<le> length u \<and> list_all (dans_crochets ks) u \<and> re_match es v)"
proof (induction s arbitrary: n)
  case Nil
  show ?case by auto
next
  case (Cons c cs)
  show ?case
  proof
    assume "re_match (Au_moins n ks # es) (c # cs)"
    then consider "n = 0" "re_match es (c # cs)"
      | "dans_crochets ks c" "re_match (Au_moins (n - 1) ks # es) cs"
      by auto
    then show "\<exists>u v. c # cs = u @ v \<and> n \<le> length u \<and> list_all (dans_crochets ks) u \<and> re_match es v"
    proof cases
      case 1
      then have "c # cs = [] @ (c # cs) \<and> n \<le> length ([] :: string)
                 \<and> list_all (dans_crochets ks) [] \<and> re_match es (c # cs)"
        by simp
      then show ?thesis by blast
    next
      case 2
      from 2(2) obtain u v where uv: "cs = u @ v" "n - 1 \<le> length u"
        "list_all (dans_crochets ks) u" "re_match es v"
        unfolding Cons.IH by blast
      with 2(1) have "c # cs = (c # u) @ v \<and> n \<le> length (c # u)
                 \<and> list_all (dans_crochets ks) (c # u) \<and> re_match es v"
        by simp
      then show ?thesis by blast
    qed
  next
    assume "\<exists>u v. c # cs = u @ v \<and> n \<le> length u \<and> list_all (dans_crochets ks) u \<and> re_match es v"
    then obtain u v where uv: "c # cs = u @ v" "n \<le> length u"
      "list_all (dans_crochets ks) u" "re_match es v"
      by blast
    show "re_match (Au_moins n ks # es) (c # cs)"
    proof (cases u)
      case Nil
      with uv have "n = 0" and "re_match es (c # cs)" by simp_all
      then show ?thesis by simp
    next
      case (Cons x u')
      with uv have "x = c" "cs = u' @ v" "n - 1 \<le> length u'"
        "dans_crochets ks c" "list_all (dans_crochets ks) u'"
        by auto
      with uv(4) have "re_match (Au_moins (n - 1) ks # es) cs"
        unfolding Cons.IH by blast
      with \<open>dans_crochets ks c\<close> show ?thesis by simp
    qed
  qed
qed

lemma dans_crochets_arobase: "dans_crochets [Caractere (CHR ''@'')] c = (c = CHR ''@'')"
  by (simp add: dans_crochets_def)

lemma dans_crochets_point: "dans_crochets [Caractere (CHR ''.'')] c = (c = CHR ''.'')"
  by (simp add: dans_crochets_def)

lemma re_match_tld:
  "re_match [Au_moins 2 crochets_alpha] s =
     (\<exists>t v. s = t @ v \<and> 2 \<le> length t \<and> list_all (dans_crochets crochets_alpha) t
        \<and> (v = [] \<or> v = [CHR 0x0A]))"
  by (simp only: re_match_Au_moins re_match.simps(1))

lemma re_match_point_tld:
  "re_match [Une_fois [Caractere (CHR ''.'')], Au_moins 2 crochets_alpha] s =
     (\<exists>t v. s = ''.'' @ t @ v \<and> 2 \<le> length t \<and> list_all (dans_crochets crochets_alpha) t
        \<and> (v = [] \<or> v = [CHR 0x0A]))"
proof -
  have "re_match [Une_fois [Caractere (CHR ''.'')], Au_moins 2 crochets_alpha] s =
          (\<exists>r. s = CHR ''.'' # r \<and> re_match [Au_moins 2 crochets_alpha] r)"
    by (simp only: re_match_Une_fois dans_crochets_point) blast
  also have "\<dots> = (\<exists>t v. s = ''.'' @ t @ v \<and> 2 \<le> length t
        \<and> list_all (dans_crochets crochets_alpha) t \<and> (v = [] \<or> v = [CHR 0x0A]))"
    unfolding re_match_tld by (simp only: append_Cons append_Nil) blast
  finally show ?thesis .
qed

lemma re_match_domaine_tld:
  "re_match [Au_moins 1 crochets_domaine, Une_fois [Caractere (CHR ''.'')],
             Au_moins 2 crochets_alpha] s =
     (\<exists>d t v. s = d @ ''.'' @ t @ v
        \<and> 1 \<le> length d \<and> list_all (dans_crochets crochets_domaine) d
        \<and> 2 \<le> length t \<and> list_all (dans_crochets crochets_alpha) t
        \<and> (v = [] \<or> v = [CHR 0x0A]))"
proof -
  have "re_match [Au_moins 1 crochets_domaine, Une_fois [Caractere (CHR ''.'')],
                  Au_moins 2 crochets_alpha] s =
          (\<exists>d r. s = d @ r \<and> 1 \<le> length d \<and> list_all (dans_crochets crochets_domaine) d
             \<and> re_match [Une_fois [Caractere (CHR ''.'')], Au_moins 2 crochets_alpha] r)"
    by (simp only: re_match_Au_moins)
  also have "\<dots> = (\<exists>d t v. s = d @ ''.'' @ t @ v
        \<and> 1 \<le> length d \<and> list_all (dans_crochets crochets_domaine) d
        \<and> 2 \<le> length t \<and> list_all (dans_crochets crochets_alpha) t
        \<and> (v = [] \<or> v = [CHR 0x0A]))"
    unfolding re_match_point_tld by blast
  finally show ?thesis .
qed

lemma re_match_arobase_domaine_tld:
  "re_match [Une_fois [Caractere (CHR ''@'')], Au_moins 1 crochets_domaine,
             Une_fois [Caractere (CHR ''.'')], Au_moins 2 crochets_alpha] s =
     (\<exists>d t v. s = ''@'' @ d @ ''.'' @ t @ v
        \<and> 1 \<le> length d \<and> list_all (dans_crochets crochets_domaine) d
        \<and> 2 \<le> length t \<and> list_all (dans_crochets crochets_alpha) t
        \<and> (v = [] \<or> v = [CHR 0x0A]))"
proof -
  have "re_match [Une_fois [Caractere (CHR ''@'')], Au_moins 1 crochets_domaine,
                  Une_fois [Caractere (CHR ''.'')], Au_moins 2 crochets_alpha] s =
          (\<exists>r. s = CHR ''@'' # r \<and>
             re_match [Au_moins 1 crochets_domaine, Une_fois [Caractere (CHR ''.'')],
                       Au_moins 2 crochets_alpha] r)"
    by (simp only: re_match_Une_fois dans_crochets_arobase) blast
  also have "\<dots> = (\<exists>d t v. s = ''@'' @ d @ ''.'' @ t @ v
        \<and> 1 \<le> length d \<and> list_all (dans_crochets crochets_domaine) d
        \<and> 2 \<le> length t \<and> list_all (dans_crochets crochets_alpha) t
        \<and> (v = [] \<or> v = [CHR 0x0A]))"
    unfolding re_match_domaine_tld by (simp only: append_Cons append_Nil) blast
  finally show ?thesis .
qed

lemma re_match_pattern_email:
  "re_match pattern_email e =
     (\<exists>l d t v. e = l @ ''@'' @ d @ ''.'' @ t @ v
        \<and> 1 \<le> length l \<and> list_all (dans_crochets crochets_local) l
        \<and> 1 \<le> length d \<and> list_all (dans_crochets crochets_domaine) d
        \<and> 2 \<le> length t \<and> list_all (dans_crochets crochets_alpha) t
        \<and> (v = [] \<or> v = [CHR 0x0A]))"
proof -
  have "re_match pattern_email e =
          (\<exists>l r. e = l @ r \<and> 1 \<le> length l \<and> list_all (dans_crochets crochets_local) l
             \<and> re_match [Une_fois [Caractere (CHR ''@'')], Au_moins 1 crochets_domaine,
                          Une_fois [Caractere (CHR ''.'')], Au_moins 2 crochets_alpha] r)"
    unfolding pattern_email_def by (simp only: re_match_Au_moins)
  also have "\<dots> = (\<exists>l d t v. e = l @ ''@'' @ d @ ''.'' @ t @ v
        \<and> 1 \<le> length l \<and> list_all (dans_crochets crochets_local) l
        \<and> 1 \<le> length d \<and> list_all (dans_crochets crochets_domaine) d
        \<and> 2 \<le> length t \<and> list_all (dans_crochets crochets_alpha) t
        \<and> (v = [] \<or> v = [CHR 0x0A]))"
    unfolding re_match_arobase_domaine_tld by blast
  finally show ?thesis .
qed

lemma valider_email_caracterise:
  "valider_email e = (e = [] \<or> email_conforme e \<or> (\<exists>e'. e = e' @ [CHR 0x0A] \<and> email_conforme e'))"
proof -
  have "re_match pattern_email e = (email_conforme e \<or> (\<exists>e'. e = e' @ [CHR 0x0A] \<and> email_conforme e'))"
    unfolding re_match_pattern_email email_conforme_def
  proof
    assume "\<exists>l d t v. e = l @ ''@'' @ d @ ''.'' @ t @ v
        \<and> 1 \<le> length l \<and> list_all (dans_crochets crochets_local) l
        \<and> 1 \<le> length d \<and> list_all (dans_crochets crochets_domaine) d
        \<and> 2 \<le> length t \<and> list_all (dans_crochets crochets_alpha) t
        \<and> (v = [] \<or> v = [CHR 0x0A])"
    then obtain l d t v where h: "e = l @ ''@'' @ d @ ''.'' @ t @ v"
        "1 \<le> length l" "list_all (dans_crochets crochets_local) l"
        "1 \<le> length d" "list_all (dans_crochets crochets_domaine) d"
        "2 \<le> length t" "list_all (dans_crochets crochets_alpha) t"
        "v = [] \<or> v = [CHR 0x0A]"
      by blast
    from h(8) show "(\<exists>partie_locale domaine tld.
        e = partie_locale @ ''@'' @ domaine @ ''.'' @ tld
        \<and> 1 \<le> length partie_locale \<and> list_all (dans_crochets crochets_local) partie_locale
        \<and> 1 \<le> length domaine \<and> list_all (dans_crochets crochets_domaine) domaine
        \<and> 2 \<le> length tld \<and> list_all (dans_crochets crochets_alpha) tld)
      \<or> (\<exists>e'. e = e' @ [CHR 0x0A] \<and> (\<exists>partie_locale domaine tld.
        e' = partie_locale @ ''@'' @ domaine @ ''.'' @ tld
        \<and> 1 \<le> length partie_locale \<and> list_all (dans_crochets crochets_local) partie_locale
        \<and> 1 \<le> length domaine \<and> list_all (dans_crochets crochets_domaine) domaine
        \<and> 2 \<le> length tld \<and> list_all (dans_crochets crochets_alpha) tld))"
    proof
      assume "v = []"
      with h have "e = l @ ''@'' @ d @ ''.'' @ t" by simp
      with h(2-7) show ?thesis by blast
    next
      assume "v = [CHR 0x0A]"
      with h have "e = (l @ ''@'' @ d @ ''.'' @ t) @ [CHR 0x0A]" by simp
      with h(2-7) show ?thesis by blast
    qed
  next
    assume "(\<exists>partie_locale domaine tld.
        e = partie_locale @ ''@'' @ domaine @ ''.'' @ tld
        \<and> 1 \<le> length partie_locale \<and> list_all (dans_crochets crochets_local) partie_locale
        \<and> 1 \<le> length domaine \<and> list_all (dans_crochets crochets_domaine) domaine
        \<and> 2 \<le> length tld \<and> list_all (dans_crochets crochets_alpha) tld)
      \<or> (\<exists>e'. e = e' @ [CHR 0x0A] \<and> (\<exists>partie_locale domaine tld.
        e' = partie_locale @ ''@'' @ domaine @ ''.'' @ tld
        \<and> 1 \<le> length partie_locale \<and> list_all (dans_crochets crochets_local) partie_locale
        \<and> 1 \<le> length domaine \<and> list_all (dans_crochets crochets_domaine) domaine
        \<and> 2 \<le> length tld \<and> list_all (dans_crochets crochets_alpha) tld))"
    then have "\<exists>e' v. e = e' @ v \<and> (v = [] \<or> v = [CHR 0x0A]) \<and>
        (\<exists>partie_locale domaine tld.
        e' = partie_locale @ ''@'' @ domaine @ ''.'' @ tld
        \<and> 1 \<le> length partie_locale \<and> list_all (dans_crochets crochets_local) partie_locale
        \<and> 1 \<le> length domaine \<and> list_all (dans_crochets crochets_domaine) domaine
        \<and> 2 \<le> length tld \<and> list_all (dans_crochets crochets_alpha) tld)"
    proof
      assume a: "\<exists>partie_locale domaine tld.
        e = partie_locale @ ''@'' @ domaine @ ''.'' @ tld
        \<and> 1 \<le> length partie_locale \<and> list_all (dans_crochets crochets_local) partie_locale
        \<and> 1 \<le> length domaine \<and> list_all (dans_crochets crochets_domaine) domaine
        \<and> 2 \<le> length tld \<and> list_all (dans_crochets crochets_alpha) tld"
      have "e = e @ []" by simp
      with a show ?thesis by blast
    next
      assume "\<exists>e'. e = e' @ [CHR 0x0A] \<and> (\<exists>partie_locale domaine tld.
        e' = partie_locale @ ''@'' @ domaine @ ''.'' @ tld
        \<and> 1 \<le> length partie_locale \<and> list_all (dans_crochets crochets_local) partie_locale
        \<and> 1 \<le> length domaine \<and> list_all (dans_crochets crochets_domaine) domaine
        \<and> 2 \<le> length tld \<and> list_all (dans_crochets crochets_alpha) tld)"
      then show ?thesis by blast
    qed
    then obtain l d t v where "e = (l @ ''@'' @ d @ ''.'' @ t) @ v"
        "1 \<le> length l" "list_all (dans_crochets crochets_local) l"
        "1 \<le> length d" "list_all (dans_crochets crochets_domaine) d"
        "2 \<le> length t" "list_all (dans_crochets crochets_alpha) t"
        "v = [] \<or> v = [CHR 0x0A]"
      by blast
    then have "e = l @ ''@'' @ d @ ''.'' @ t @ v
        \<and> 1 \<le> length l \<and> list_all (dans_crochets crochets_local) l
        \<and> 1 \<le> length d \<and> list_all (dans_crochets crochets_domaine) d
        \<and> 2 \<le> length t \<and> list_all (dans_crochets crochets_alpha) t
        \<and> (v = [] \<or> v = [CHR 0x0A])"
      by simp
    then show "\<exists>l d t v. e = l @ ''@'' @ d @ ''.'' @ t @ v
        \<and> 1 \<le> length l \<and> list_all (dans_crochets crochets_local) l
        \<and> 1 \<le> length d \<and> list_all (dans_crochets crochets_domaine) d
        \<and> 2 \<le> length t \<and> list_all (dans_crochets crochets_alpha) t
        \<and> (v = [] \<or> v = [CHR 0x0A])"
      by blast
  qed
  then show ?thesis by (simp add: valider_email_def)
qed


subsection \<open>C7: the validator of the controller\<close>


subsection \<open>C8: the checker of the view and the validator of the controller disagree\<close>

lemma desaccord: "valider_email_temps_reel ''a#b@c.de'' = FormatValide \<and> \<not> valider_email ''a#b@c.de''"
  by code_simp

text \<open>
  C8: there is a non-empty email on which the checker of the view ends with
  \<open>FormatValide\<close> and which \<open>valider_email\<close> of the controller refuses; \<open>a#b@c.de\<close> is one.
\<close>

theorem validateurs_en_desaccord:
  "\<exists>e. e \<noteq> [] \<and> valider_email_temps_reel e = FormatValide \<and> \<not> valider_email e"
proof -
  have "''a#b@c.de'' \<noteq> []" by simp
  with desaccord show ?thesis by blast
qed

section \<open>The delete workflow of the controller\<close>

lemma obtenir_trouve_base:
  assumes "fst (obtenir_contact_par_id i b) = Inr (Some c)"
  shows "obtenir_contact_par_id i b = (Inr (Some c), b)"
proof -
  from assms have pos: "\<not> (i = 0 \<or> i \<le> 0)"
    by (auto simp: obtenir_contact_par_id_def)
  with assms have f: "sql_select_id i (contenu b) = Some c"
    by (simp add: obtenir_contact_par_id_def Let_def initialiser_base_Some contenu_Some)
  have "b \<noteq> None"
  proof
    assume "b = None"
    with f show False by (simp add: contenu_def table_vide_def sql_select_id_def)
  qed
  then have "initialiser_base b = b"
    by (auto simp: initialiser_base_def)
  with pos f show ?thesis
    by (simp add: obtenir_contact_par_id_def Let_def)
qed

subsection \<open>C9: a refused confirmation leaves the table as it was\<close>

text \<open>
  C9: when a contact is selected, its record is found, and the user answers no to the
  confirmation dialog, \<open>Controller.supprimer_contact\<close> ends after the dialog: it raises
  nothing, its only call on the view is the dialog, and the database is the one it
  started with.  Whatever the selection and the answers, if the content of the table
  after the workflow differs from the content before, then the record of the selected id
  was found and the user answered yes to its dialog, and the content is what
  \<open>supprimer_contact\<close> of the model leaves for that id.
\<close>

theorem suppression_refusee_sans_effet:
  "(selection = Some contact_id \<and> contact_id \<noteq> 0
      \<and> fst (obtenir_contact_par_id contact_id b) = Inr (Some contact)
      \<and> \<not> confirmation ''Confirmation'' (message_suppression contact) \<longrightarrow>
      Controller_supprimer_contact selection confirmation b =
        (None, [MessageConfirmation ''Confirmation'' (message_suppression contact)], b))
   \<and> (contenu (snd (snd (Controller_supprimer_contact selection confirmation b))) \<noteq> contenu b \<longrightarrow>
      (\<exists>i c. selection = Some i \<and> fst (obtenir_contact_par_id i b) = Inr (Some c)
         \<and> confirmation ''Confirmation'' (message_suppression c)
         \<and> contenu (snd (snd (Controller_supprimer_contact selection confirmation b))) =
             contenu (snd (supprimer_contact i b))))"
proof (intro conjI impI)
  assume a: "selection = Some contact_id \<and> contact_id \<noteq> 0
      \<and> fst (obtenir_contact_par_id contact_id b) = Inr (Some contact)
      \<and> \<not> confirmation ''Confirmation'' (message_suppression contact)"
  then have "obtenir_contact_par_id contact_id b = (Inr (Some contact), b)"
    by (simp add: obtenir_trouve_base)
  with a show "Controller_supprimer_contact selection confirmation b =
        (None, [MessageConfirmation ''Confirmation'' (message_suppression contact)], b)"
    by (simp add: Controller_supprimer_contact_def)
next
  let ?r = "Controller_supprimer_contact selection confirmation b"
  assume ch: "contenu (snd (snd ?r)) \<noteq> contenu b"
  show "\<exists>i c. selection = Some i \<and> fst (obtenir_contact_par_id i b) = Inr (Some c)
         \<and> confirmation ''Confirmation'' (message_suppression c)
         \<and> contenu (snd (snd ?r)) = contenu (snd (supprimer_contact i b))"
  proof (cases "selection = None \<or> selection = Some 0")
    case True
    then have "snd (snd ?r) = b" by (auto simp: Controller_supprimer_contact_def)
    with ch show ?thesis by simp
  next
    case False
    then obtain i where i: "selection = Some i" "i \<noteq> 0" by auto
    obtain res b1 where o: "obtenir_contact_par_id i b = (res, b1)"
      by (cases "obtenir_contact_par_id i b")
    have b1: "contenu b1 = contenu b"
      using contenu_obtenir [of i b] o by simp
    show ?thesis
    proof (cases res)
      case (Inl e)
      with i o have "snd (snd ?r) = b1" by (simp add: Controller_supprimer_contact_def)
      with ch b1 show ?thesis by simp
    next
      case (Inr oc)
      show ?thesis
      proof (cases oc)
        case None
        with Inr i o have "snd (snd ?r) = b1" by (simp add: Controller_supprimer_contact_def)
        with ch b1 show ?thesis by simp
      next
        case (Some c)
        with Inr o have f: "fst (obtenir_contact_par_id i b) = Inr (Some c)" by simp
        then have ob: "obtenir_contact_par_id i b = (Inr (Some c), b)"
          by (rule obtenir_trouve_base)
        show ?thesis
        proof (cases "confirmation ''Confirmation'' (message_suppression c)")
          case False
          with i ob have "snd (snd ?r) = b" by (simp add: Controller_supprimer_contact_def)
          with ch show ?thesis by simp
        next
          case True
          obtain r2 b2 where s: "supprimer_contact i b = (r2, b2)"
            by (cases "supprimer_contact i b")
          have "contenu (snd (snd ?r)) = contenu b2"
            using i ob True s
            by (cases r2) (simp_all add: Controller_supprimer_contact_def contenu_afficher)
          then have "contenu (snd (snd ?r)) = contenu (snd (supprimer_contact i b))"
            using s by simp
          with i(1) f True show ?thesis by blast
        qed
      qed
    qed
  qed
qed

theorem suppression_refusee_sans_effet_temoin:
  "Controller_supprimer_contact (Some 1) (\<lambda>titre message. False)
     (Some \<lparr>lignes = [(1, ''Dupont'', ''Jean'', None, None, None),
                       (2, ''Martin'', ''Zoe'', None, None, None)], sequence = 2\<rparr>) =
     (None,
      [MessageConfirmation ''Confirmation''
         (message_suppression (1, ''Dupont'', ''Jean'', None, None, None))],
      Some \<lparr>lignes = [(1, ''Dupont'', ''Jean'', None, None, None),
                       (2, ''Martin'', ''Zoe'', None, None, None)], sequence = 2\<rparr>)
   \<and> contenu (snd (snd (Controller_supprimer_contact (Some 1) (\<lambda>titre message. True)
        (Some \<lparr>lignes = [(1, ''Dupont'', ''Jean'', None, None, None),
                          (2, ''Martin'', ''Zoe'', None, None, None)], sequence = 2\<rparr>)))) =
       \<lparr>lignes = [(2, ''Martin'', ''Zoe'', None, None, None)], sequence = 2\<rparr>"
proof -
  let ?b = "Some \<lparr>lignes = [(1 :: int, ''Dupont'', ''Jean'', None, None, None),
                             (2, ''Martin'', ''Zoe'', None, None, None)], sequence = 2\<rparr>"
  let ?c = "(1 :: int, ''Dupont'', ''Jean'', None :: string option, None :: string option,
             None :: string option)"
  have h: "Some (1 :: int) = Some 1 \<and> (1 :: int) \<noteq> 0
      \<and> fst (obtenir_contact_par_id 1 ?b) = Inr (Some ?c)
      \<and> \<not> (\<lambda>titre message. False) ''Confirmation'' (message_suppression ?c)"
    by code_simp
  have d: "contenu (snd (snd (Controller_supprimer_contact (Some 1) (\<lambda>titre message. True) ?b))) =
             \<lparr>lignes = [(2, ''Martin'', ''Zoe'', None, None, None)], sequence = 2\<rparr>"
    by code_simp
  from suppression_refusee_sans_effet [of "Some 1" 1 ?b ?c "\<lambda>titre message. False"] h
  have "Controller_supprimer_contact (Some 1) (\<lambda>titre message. False) ?b =
          (None, [MessageConfirmation ''Confirmation'' (message_suppression ?c)], ?b)"
    by blast
  with d show ?thesis by blast
qed

end
